theory Spec2Isabelle
  imports Main
begin

section \<open>Errors and results\<close>

text \<open>
  Every \<^verbatim>\<open>errors.Errorf\<close>, \<^verbatim>\<open>errors.Wrapf\<close> and \<^verbatim>\<open>fmt.Errorf\<close> of
  \<^verbatim>\<open>cmd/kpod/create_cli.go\<close> is one constructor, in the order of the source; the
  arguments are the values the message formats.
\<close>

datatype error =
    IncorrectVolumeFormat string
  | ErrorCheckingPath string
  | InvalidContainerDirectory string
  | OnlyOneRWRO string
  | OnlyOneLabelChange string
  | OnlyOneRootPropagation string
  | InvalidOptionType string
  | MinimumMemory
  | SwapLessThanMemory
  | SwapWithoutMemory
  | InvalidSwappiness int
  | MinimumMemoryReservation
  | MemoryLessThanReservation
  | MinimumKernelMemory
  | CpuPeriodRange
  | CpuQuotaMinimum
  | InvalidCpusetCpus string
  | CpusNotAvailable string string
  | InvalidCpusetMems string
  | MemsNotAvailable string string
  | BlkioWeightRange

text \<open>
  What a Go function of type \<^verbatim>\<open>func(...) error\<close> can do: return \<^verbatim>\<open>nil\<close>, return an
  error, or stop in a run-time panic (here: an index out of range).
\<close>

datatype result = NoError | Err error | Panic

section \<open>The volume validator\<close>

subsection \<open>\<^verbatim>\<open>strings.SplitN\<close> and \<^verbatim>\<open>strings.Split\<close> of the Go library, for a one-byte separator\<close>

text \<open>
  \<^verbatim>\<open>SplitN(s, sep, n)\<close> with \<^verbatim>\<open>n > 0\<close> returns at most \<^verbatim>\<open>n\<close> substrings, the last one
  being the unsplit remainder, and \<^verbatim>\<open>nil\<close> for \<^verbatim>\<open>n == 0\<close>. \<^verbatim>\<open>Split(s, sep)\<close> is
  the library's \<^verbatim>\<open>genSplit\<close> with \<^verbatim>\<open>n = Count(s, sep) + 1\<close>.
\<close>

fun SplitN :: "string \<Rightarrow> char \<Rightarrow> nat \<Rightarrow> string list" where
  "SplitN s sep 0 = []"
| "SplitN s sep (Suc n) =
     (if n = 0 \<or> sep \<notin> set s then [s]
      else takeWhile (\<lambda>c. c \<noteq> sep) s # SplitN (tl (dropWhile (\<lambda>c. c \<noteq> sep) s)) sep n)"

definition Split :: "string \<Rightarrow> char \<Rightarrow> string list" where
  "Split s sep = SplitN s sep (count_list s sep + 1)"

subsection \<open>The validators of one volume entry\<close>

text \<open>
  \<^verbatim>\<open>os.Stat\<close> reads the host's file system: the model takes it as a parameter, the
  predicate that holds of the paths on which \<^verbatim>\<open>os.Stat\<close> returns no error.
\<close>

type_synonym filesystem = "string \<Rightarrow> bool"

definition validateVolumeHostDir :: "filesystem \<Rightarrow> string \<Rightarrow> result" where
  "validateVolumeHostDir osStat hostDir =
     (if \<not> osStat hostDir then Err (ErrorCheckingPath hostDir) else NoError)"

text \<open>\<^verbatim>\<open>ctrDir[0]\<close> panics on the empty string: the index is out of range.\<close>

definition validateVolumeCtrDir :: "string \<Rightarrow> result" where
  "validateVolumeCtrDir ctrDir =
     (case ctrDir of
        [] \<Rightarrow> Panic
      | c # _ \<Rightarrow> if c \<noteq> CHR ''/'' then Err (InvalidContainerDirectory ctrDir) else NoError)"

text \<open>
  The body of the loop of \<^verbatim>\<open>validateVolumeOpts\<close>: the \<^verbatim>\<open>switch\<close> on one option,
  over the three counters \<^verbatim>\<open>foundRootPropagation\<close>, \<^verbatim>\<open>foundRWRO\<close> and
  \<^verbatim>\<open>foundLabelChange\<close> (Go \<^verbatim>\<open>int\<close>s that only count up from 0, one step per
  option: no overflow on a string that fits in memory). \<open>Inl\<close> is the \<^verbatim>\<open>return\<close> of
  an error, \<open>Inr\<close> the counters after the option.
\<close>

type_synonym counters = "int \<times> int \<times> int"

definition validateVolumeOpts_switch :: "string \<Rightarrow> string \<Rightarrow> counters \<Rightarrow> error + counters" where
  "validateVolumeOpts_switch option opt found =
     (case found of (foundRootPropagation, foundRWRO, foundLabelChange) \<Rightarrow>
      if opt = ''rw'' \<or> opt = ''ro'' then
        (if foundRWRO > 1 then Inl (OnlyOneRWRO option)
         else Inr (foundRootPropagation, foundRWRO + 1, foundLabelChange))
      else if opt = ''z'' \<or> opt = ''Z'' then
        (if foundLabelChange > 1 then Inl (OnlyOneLabelChange option)
         else Inr (foundRootPropagation, foundRWRO, foundLabelChange + 1))
      else if opt = ''private'' \<or> opt = ''rprivate'' \<or> opt = ''shared'' \<or> opt = ''rshared''
              \<or> opt = ''slave'' \<or> opt = ''rslave'' then
        (if foundRootPropagation > 1 then Inl (OnlyOneRootPropagation option)
         else Inr (foundRootPropagation + 1, foundRWRO, foundLabelChange))
      else Inl (InvalidOptionType option))"

fun validateVolumeOpts_loop :: "string \<Rightarrow> string list \<Rightarrow> counters \<Rightarrow> result" where
  "validateVolumeOpts_loop option [] found = NoError"
| "validateVolumeOpts_loop option (opt # options) found =
     (case validateVolumeOpts_switch option opt found of
        Inl e \<Rightarrow> Err e
      | Inr found' \<Rightarrow> validateVolumeOpts_loop option options found')"

definition validateVolumeOpts :: "string \<Rightarrow> result" where
  "validateVolumeOpts option =
     validateVolumeOpts_loop option (Split option CHR '','') (0, 0, 0)"

subsection \<open>\<^verbatim>\<open>parseVolumes\<close>\<close>

text \<open>The body of the loop of \<^verbatim>\<open>parseVolumes\<close>, for one entry; \<open>NoError\<close> goes on to the next.\<close>

definition parseVolumes_body :: "filesystem \<Rightarrow> string \<Rightarrow> result" where
  "parseVolumes_body osStat volume =
     (let arr = SplitN volume CHR '':'' 3 in
      if length arr < 2 then Err (IncorrectVolumeFormat volume)
      else case validateVolumeHostDir osStat (arr ! 0) of
        Err e \<Rightarrow> Err e
      | Panic \<Rightarrow> Panic
      | NoError \<Rightarrow>
         (case validateVolumeCtrDir (arr ! 1) of
            Err e \<Rightarrow> Err e
          | Panic \<Rightarrow> Panic
          | NoError \<Rightarrow> if length arr > 2 then validateVolumeOpts (arr ! 2) else NoError))"

fun parseVolumes_loop :: "filesystem \<Rightarrow> string list \<Rightarrow> result" where
  "parseVolumes_loop osStat [] = NoError"
| "parseVolumes_loop osStat (volume # volumes) =
     (case parseVolumes_body osStat volume of
        NoError \<Rightarrow> parseVolumes_loop osStat volumes
      | Err e \<Rightarrow> Err e
      | Panic \<Rightarrow> Panic)"

definition parseVolumes :: "filesystem \<Rightarrow> string list \<Rightarrow> result" where
  "parseVolumes osStat volumes =
     (if length volumes = 0 then NoError else parseVolumes_loop osStat volumes)"

section \<open>The resource validator\<close>

subsection \<open>The data\<close>

text \<open>
  Modelled from the spec: the declaration of \<^verbatim>\<open>createConfig\<close> and of its field
  \<^verbatim>\<open>resources\<close> is not in \<^verbatim>\<open>create_cli.go\<close>. The record has the fields that
  \<^verbatim>\<open>verifyContainerResources\<close> reads and writes, under the names it uses; the spec's
  data model gives their types (byte counts and integers, a boolean, strings, sequences of
  strings). The function compares and assigns them and does no arithmetic, so an unbounded
  \<open>int\<close> stands for the Go integer of any width. \<^verbatim>\<open>verifyContainerResources\<close> touches no
  other field of \<^verbatim>\<open>createConfig\<close>, so the record is the state it mutates.
\<close>

record resources =
  memory :: int
  memorySwap :: int
  memorySwappiness :: int
  memoryReservation :: int
  kernelMemory :: int
  disableOomKiller :: bool
  pidsLimit :: int
  cpuShares :: int
  cpuPeriod :: int
  cpuQuota :: int
  cpusetCpus :: string
  cpusetMems :: string
  blkioWeight :: int
  blkioWeightDevice :: "string list"
  deviceReadBps :: "string list"
  deviceWriteBps :: "string list"
  deviceReadIOps :: "string list"
  deviceWriteIOps :: "string list"

text \<open>
  \<^verbatim>\<open>sysinfo.New(true)\<close> of \<^verbatim>\<open>github.com/docker/docker/pkg/sysinfo\<close> reads the
  capabilities of the host once; the model takes the report as a parameter. The fields are
  the ones the function reads. The two queries return \<^verbatim>\<open>(bool, error)\<close>: \<open>None\<close> is
  an error, \<open>Some b\<close> the answer \<open>b\<close> with a \<^verbatim>\<open>nil\<close> error.
\<close>

record SysInfo =
  MemoryLimit :: bool
  SwapLimit :: bool
  MemorySwappiness :: bool
  MemoryReservation :: bool
  KernelMemory :: bool
  OomKillDisable :: bool
  PidsLimit :: bool
  CPUShares :: bool
  CPUCfsPeriod :: bool
  CPUCfsQuota :: bool
  Cpuset :: bool
  Cpus :: string
  Mems :: string
  IsCpusetCpusAvailable :: "string \<Rightarrow> bool option"
  IsCpusetMemsAvailable :: "string \<Rightarrow> bool option"
  BlkioWeight :: bool
  BlkioWeightDevice :: bool
  BlkioReadBpsDevice :: bool
  BlkioWriteBpsDevice :: bool
  BlkioReadIOpsDevice :: bool
  BlkioWriteIOpsDevice :: bool

definition linuxMinMemory :: int where
  "linuxMinMemory = 4194304"

text \<open>\<^verbatim>\<open>logrus.Warn\<close> writes the log; the value of \<^verbatim>\<open>addWarning\<close> is the longer list.\<close>

definition addWarning :: "string list \<Rightarrow> string \<Rightarrow> string list" where
  "addWarning warnings msg = warnings @ [msg]"

subsection \<open>Statements\<close>

text \<open>
  The state of \<^verbatim>\<open>verifyContainerResources\<close> is the local \<^verbatim>\<open>warnings\<close> and the
  resources behind the pointer \<^verbatim>\<open>config\<close>. A statement maps a state to the state after
  it and to \<open>Some e\<close> when it has executed \<^verbatim>\<open>return warnings, e\<close>, after which nothing
  else runs.
\<close>

type_synonym state = "string list \<times> resources"
type_synonym stmt = "state \<Rightarrow> state \<times> error option"

definition Return :: "(resources \<Rightarrow> error) \<Rightarrow> stmt" where
  "Return e st = (st, Some (e (snd st)))"

definition Warn :: "string \<Rightarrow> stmt" where
  "Warn msg st = ((addWarning (fst st) msg, snd st), None)"

definition Assign :: "(resources \<Rightarrow> resources) \<Rightarrow> stmt" where
  "Assign f st = ((fst st, f (snd st)), None)"

definition IfThenElse :: "(resources \<Rightarrow> bool) \<Rightarrow> stmt \<Rightarrow> stmt \<Rightarrow> stmt" where
  "IfThenElse b s1 s2 st = (if b (snd st) then s1 st else s2 st)"

definition IfThen :: "(resources \<Rightarrow> bool) \<Rightarrow> stmt \<Rightarrow> stmt" where
  "IfThen b s st = (if b (snd st) then s st else (st, None))"

fun Block :: "stmt list \<Rightarrow> stmt" where
  "Block [] st = (st, None)"
| "Block (s # ss) st =
     (case s st of
        (st', Some e) \<Rightarrow> (st', Some e)
      | (st', None) \<Rightarrow> Block ss st')"

subsection \<open>The warnings\<close>

text \<open>The messages of the source, each named after the capability whose absence it reports.\<close>

definition warnMemoryLimit :: string where
  "warnMemoryLimit =
     ''Your kernel does not support memory limit capabilities or the cgroup is not mounted. Limitation discarded.''"

definition warnSwapLimit :: string where
  "warnSwapLimit =
     ''Your kernel does not support swap limit capabilities,or the cgroup is not mounted. Memory limited without swap.''"

definition warnMemorySwappiness :: string where
  "warnMemorySwappiness =
     ''Your kernel does not support memory swappiness capabilities, or the cgroup is not mounted. Memory swappiness discarded.''"

definition warnMemoryReservation :: string where
  "warnMemoryReservation =
     ''Your kernel does not support memory soft limit capabilities or the cgroup is not mounted. Limitation discarded.''"

definition warnKernelMemory :: string where
  "warnKernelMemory =
     ''Your kernel does not support kernel memory limit capabilities or the cgroup is not mounted. Limitation discarded.''"

definition warnOomKillDisable :: string where
  "warnOomKillDisable =
     ''Your kernel does not support OomKillDisable. OomKillDisable discarded.''"

definition warnPidsLimit :: string where
  "warnPidsLimit =
     ''Your kernel does not support pids limit capabilities or the cgroup is not mounted. PIDs limit discarded.''"

definition warnCPUShares :: string where
  "warnCPUShares =
     ''Your kernel does not support CPU shares or the cgroup is not mounted. Shares discarded.''"

definition warnCPUCfsPeriod :: string where
  "warnCPUCfsPeriod =
     ''Your kernel does not support CPU cfs period or the cgroup is not mounted. Period discarded.''"

definition warnCPUCfsQuota :: string where
  "warnCPUCfsQuota =
     ''Your kernel does not support CPU cfs quota or the cgroup is not mounted. Quota discarded.''"

definition warnCpuset :: string where
  "warnCpuset =
     ''Your kernel does not support cpuset or the cgroup is not mounted. Cpuset discarded.''"

definition warnBlkioWeight :: string where
  "warnBlkioWeight =
     ''Your kernel does not support Block I/O weight or the cgroup is not mounted. Weight discarded.''"

definition warnBlkioWeightDevice :: string where
  "warnBlkioWeightDevice =
     ''Your kernel does not support Block I/O weight_device or the cgroup is not mounted. Weight-device discarded.''"

definition warnBlkioReadBpsDevice :: string where
  "warnBlkioReadBpsDevice =
     ''Your kernel does not support BPS Block I/O read limit or the cgroup is not mounted. Block I/O BPS read limit discarded''"

definition warnBlkioWriteBpsDevice :: string where
  "warnBlkioWriteBpsDevice =
     ''Your kernel does not support BPS Block I/O write limit or the cgroup is not mounted. Block I/O BPS write limit discarded.''"

definition warnBlkioReadIOpsDevice :: string where
  "warnBlkioReadIOpsDevice =
     ''Your kernel does not support IOPS Block read limit or the cgroup is not mounted. Block I/O IOPS read limit discarded.''"

definition warnBlkioWriteIOpsDevice :: string where
  "warnBlkioWriteIOpsDevice =
     ''Your kernel does not support IOPS Block I/O write limit or the cgroup is not mounted. Block I/O IOPS write limit discarded.''"

subsection \<open>\<^verbatim>\<open>verifyContainerResources\<close>\<close>

text \<open>
  The statements of the function after its two declarations, in the order of the source:
  one entry of the list for each statement of the function's body.
\<close>

definition verifyContainerResources_body :: "SysInfo \<Rightarrow> bool \<Rightarrow> stmt list" where
  "verifyContainerResources_body sysInfo update =
   [IfThen (\<lambda>config. memory config \<noteq> 0 \<and> memory config < linuxMinMemory)
      (Return (\<lambda>config. MinimumMemory)),
    IfThen (\<lambda>config. memory config > 0 \<and> \<not> MemoryLimit sysInfo)
      (Block [Warn warnMemoryLimit,
              Assign (\<lambda>config. config\<lparr>memory := 0\<rparr>),
              Assign (\<lambda>config. config\<lparr>memorySwap := - 1\<rparr>)]),
    IfThen (\<lambda>config. memory config > 0 \<and> memorySwap config \<noteq> - 1 \<and> \<not> SwapLimit sysInfo)
      (Block [Warn warnSwapLimit,
              Assign (\<lambda>config. config\<lparr>memorySwap := - 1\<rparr>)]),
    IfThen (\<lambda>config. memory config > 0 \<and> memorySwap config > 0
                     \<and> memorySwap config < memory config)
      (Return (\<lambda>config. SwapLessThanMemory)),
    IfThen (\<lambda>config. memory config = 0 \<and> memorySwap config > 0 \<and> \<not> update)
      (Return (\<lambda>config. SwapWithoutMemory)),
    IfThen (\<lambda>config. memorySwappiness config \<noteq> - 1)
      (IfThenElse (\<lambda>config. \<not> MemorySwappiness sysInfo)
         (Block [Warn warnMemorySwappiness,
                 Assign (\<lambda>config. config\<lparr>memorySwappiness := - 1\<rparr>)])
         (IfThen (\<lambda>config. memorySwappiness config < - 1 \<or> memorySwappiness config > 100)
            (Return (\<lambda>config. InvalidSwappiness (memorySwappiness config))))),
    IfThen (\<lambda>config. memoryReservation config > 0 \<and> \<not> MemoryReservation sysInfo)
      (Block [Warn warnMemoryReservation,
              Assign (\<lambda>config. config\<lparr>memoryReservation := 0\<rparr>)]),
    IfThen (\<lambda>config. memoryReservation config > 0 \<and> memoryReservation config < linuxMinMemory)
      (Return (\<lambda>config. MinimumMemoryReservation)),
    IfThen (\<lambda>config. memory config > 0 \<and> memoryReservation config > 0
                     \<and> memory config < memoryReservation config)
      (Return (\<lambda>config. MemoryLessThanReservation)),
    IfThen (\<lambda>config. kernelMemory config > 0 \<and> \<not> KernelMemory sysInfo)
      (Block [Warn warnKernelMemory,
              Assign (\<lambda>config. config\<lparr>kernelMemory := 0\<rparr>)]),
    IfThen (\<lambda>config. kernelMemory config > 0 \<and> kernelMemory config < linuxMinMemory)
      (Return (\<lambda>config. MinimumKernelMemory)),
    IfThen (\<lambda>config. disableOomKiller config = True \<and> \<not> OomKillDisable sysInfo)
      (Block [Warn warnOomKillDisable,
              Assign (\<lambda>config. config\<lparr>disableOomKiller := False\<rparr>)]),
    IfThen (\<lambda>config. pidsLimit config \<noteq> 0 \<and> \<not> PidsLimit sysInfo)
      (Block [Warn warnPidsLimit,
              Assign (\<lambda>config. config\<lparr>pidsLimit := 0\<rparr>)]),
    IfThen (\<lambda>config. cpuShares config > 0 \<and> \<not> CPUShares sysInfo)
      (Block [Warn warnCPUShares,
              Assign (\<lambda>config. config\<lparr>cpuShares := 0\<rparr>)]),
    IfThen (\<lambda>config. cpuPeriod config > 0 \<and> \<not> CPUCfsPeriod sysInfo)
      (Block [Warn warnCPUCfsPeriod,
              Assign (\<lambda>config. config\<lparr>cpuPeriod := 0\<rparr>)]),
    IfThen (\<lambda>config. cpuPeriod config \<noteq> 0
                     \<and> (cpuPeriod config < 1000 \<or> cpuPeriod config > 1000000))
      (Return (\<lambda>config. CpuPeriodRange)),
    IfThen (\<lambda>config. cpuQuota config > 0 \<and> \<not> CPUCfsQuota sysInfo)
      (Block [Warn warnCPUCfsQuota,
              Assign (\<lambda>config. config\<lparr>cpuQuota := 0\<rparr>)]),
    IfThen (\<lambda>config. cpuQuota config > 0 \<and> cpuQuota config < 1000)
      (Return (\<lambda>config. CpuQuotaMinimum)),
    IfThen (\<lambda>config. (cpusetCpus config \<noteq> [] \<or> cpusetMems config \<noteq> []) \<and> \<not> Cpuset sysInfo)
      (Block [Warn warnCpuset,
              Assign (\<lambda>config. config\<lparr>cpusetCpus := []\<rparr>),
              Assign (\<lambda>config. config\<lparr>cpusetMems := []\<rparr>)]),
    IfThen (\<lambda>config. IsCpusetCpusAvailable sysInfo (cpusetCpus config) = None)
      (Return (\<lambda>config. InvalidCpusetCpus (cpusetCpus config))),
    IfThen (\<lambda>config. IsCpusetCpusAvailable sysInfo (cpusetCpus config) = Some False)
      (Return (\<lambda>config. CpusNotAvailable (cpusetCpus config) (Cpus sysInfo))),
    IfThen (\<lambda>config. IsCpusetMemsAvailable sysInfo (cpusetMems config) = None)
      (Return (\<lambda>config. InvalidCpusetMems (cpusetMems config))),
    IfThen (\<lambda>config. IsCpusetMemsAvailable sysInfo (cpusetMems config) = Some False)
      (Return (\<lambda>config. MemsNotAvailable (cpusetMems config) (Mems sysInfo))),
    IfThen (\<lambda>config. blkioWeight config > 0 \<and> \<not> BlkioWeight sysInfo)
      (Block [Warn warnBlkioWeight,
              Assign (\<lambda>config. config\<lparr>blkioWeight := 0\<rparr>)]),
    IfThen (\<lambda>config. blkioWeight config > 0
                     \<and> (blkioWeight config < 10 \<or> blkioWeight config > 1000))
      (Return (\<lambda>config. BlkioWeightRange)),
    IfThen (\<lambda>config. length (blkioWeightDevice config) > 0 \<and> \<not> BlkioWeightDevice sysInfo)
      (Block [Warn warnBlkioWeightDevice,
              Assign (\<lambda>config. config\<lparr>blkioWeightDevice := []\<rparr>)]),
    IfThen (\<lambda>config. length (deviceReadBps config) > 0 \<and> \<not> BlkioReadBpsDevice sysInfo)
      (Block [Warn warnBlkioReadBpsDevice,
              Assign (\<lambda>config. config\<lparr>deviceReadBps := []\<rparr>)]),
    IfThen (\<lambda>config. length (deviceWriteBps config) > 0 \<and> \<not> BlkioWriteBpsDevice sysInfo)
      (Block [Warn warnBlkioWriteBpsDevice,
              Assign (\<lambda>config. config\<lparr>deviceWriteBps := []\<rparr>)]),
    IfThen (\<lambda>config. length (deviceReadIOps config) > 0 \<and> \<not> BlkioReadIOpsDevice sysInfo)
      (Block [Warn warnBlkioReadIOpsDevice,
              Assign (\<lambda>config. config\<lparr>deviceReadIOps := []\<rparr>)]),
    IfThen (\<lambda>config. length (deviceWriteIOps config) > 0 \<and> \<not> BlkioWriteIOpsDevice sysInfo)
      (Block [Warn warnBlkioWriteIOpsDevice,
              Assign (\<lambda>config. config\<lparr>deviceWriteIOps := []\<rparr>)])]"

text \<open>
  The function: \<^verbatim>\<open>warnings := []string{}\<close>, the capability report, the statements, and
  \<^verbatim>\<open>return warnings, nil\<close> when none of them returned. Its value is the pair that the Go
  function returns and the resources it leaves behind \<^verbatim>\<open>config\<close>.
\<close>

definition verifyContainerResources ::
    "SysInfo \<Rightarrow> resources \<Rightarrow> bool \<Rightarrow> string list \<times> error option \<times> resources" where
  "verifyContainerResources sysInfo config update =
     (case Block (verifyContainerResources_body sysInfo update) ([], config) of
        ((warnings, config'), err) \<Rightarrow> (warnings, err, config'))"

section \<open>Example requests and capability reports\<close>

text \<open>
  A request with every limit unset, a host that supports every limit and a host that
  supports none; on both hosts every cpuset request is available. The closed theorems
  below evaluate the validator on variations of them.
\<close>

definition unsetResources :: resources where
  "unsetResources =
     \<lparr>memory = 0, memorySwap = 0, memorySwappiness = - 1, memoryReservation = 0,
      kernelMemory = 0, disableOomKiller = False, pidsLimit = 0, cpuShares = 0,
      cpuPeriod = 0, cpuQuota = 0, cpusetCpus = [], cpusetMems = [], blkioWeight = 0,
      blkioWeightDevice = [], deviceReadBps = [], deviceWriteBps = [],
      deviceReadIOps = [], deviceWriteIOps = []\<rparr>"

definition allCapabilities :: SysInfo where
  "allCapabilities =
     \<lparr>MemoryLimit = True, SwapLimit = True, MemorySwappiness = True,
      MemoryReservation = True, KernelMemory = True, OomKillDisable = True,
      PidsLimit = True, CPUShares = True, CPUCfsPeriod = True, CPUCfsQuota = True,
      Cpuset = True, Cpus = ''0-3'', Mems = ''0'',
      IsCpusetCpusAvailable = (\<lambda>provided. Some True),
      IsCpusetMemsAvailable = (\<lambda>provided. Some True),
      BlkioWeight = True, BlkioWeightDevice = True, BlkioReadBpsDevice = True,
      BlkioWriteBpsDevice = True, BlkioReadIOpsDevice = True, BlkioWriteIOpsDevice = True\<rparr>"

definition noCapabilities :: SysInfo where
  "noCapabilities =
     \<lparr>MemoryLimit = False, SwapLimit = False, MemorySwappiness = False,
      MemoryReservation = False, KernelMemory = False, OomKillDisable = False,
      PidsLimit = False, CPUShares = False, CPUCfsPeriod = False, CPUCfsQuota = False,
      Cpuset = False, Cpus = [], Mems = [],
      IsCpusetCpusAvailable = (\<lambda>provided. Some True),
      IsCpusetMemsAvailable = (\<lambda>provided. Some True),
      BlkioWeight = False, BlkioWeightDevice = False, BlkioReadBpsDevice = False,
      BlkioWriteBpsDevice = False, BlkioReadIOpsDevice = False, BlkioWriteIOpsDevice = False\<rparr>"

section \<open>Notions used in the proofs\<close>

text \<open>
  A statement is stable on a configuration when it runs through without a warning, a
  mutation or an error. A statement establishes its own stability when it is stable on
  every configuration it leaves behind, and \<open>keeps t s\<close> when running \<open>t\<close> leaves \<open>s\<close>
  stable. A list of statements settles when each one establishes its stability and every
  later one keeps it.
\<close>

definition stable :: "stmt \<Rightarrow> resources \<Rightarrow> bool" where
  "stable s config = (\<forall>warnings. s (warnings, config) = ((warnings, config), None))"

definition establishes :: "stmt \<Rightarrow> bool" where
  "establishes s = (\<forall>w c w' c'. s (w, c) = ((w', c'), None) \<longrightarrow> stable s c')"

definition keeps :: "stmt \<Rightarrow> stmt \<Rightarrow> bool" where
  "keeps t s = (\<forall>w c w' c'. stable s c \<longrightarrow> t (w, c) = ((w', c'), None) \<longrightarrow> stable s c')"

fun settles :: "stmt list \<Rightarrow> bool" where
  "settles [] = True"
| "settles (s # ss) = (establishes s \<and> (\<forall>t\<in>set ss. keeps t s) \<and> settles ss)"

text \<open>
  A statement preserves a predicate of the state whichever way it ends. Then the errors
  of the \<^verbatim>\<open>return\<close> statements that stand before the statement on
  \<^verbatim>\<open>disableOomKiller\<close> in the source, and the outcomes with which the function gets as
  far as that statement.
\<close>

definition preserves :: "(state \<Rightarrow> bool) \<Rightarrow> stmt \<Rightarrow> bool" where
  "preserves I s = (\<forall>st st' r. I st \<longrightarrow> s st = (st', r) \<longrightarrow> I st')"

fun returnsBeforeOomKiller :: "error \<Rightarrow> bool" where
  "returnsBeforeOomKiller MinimumMemory = True"
| "returnsBeforeOomKiller SwapLessThanMemory = True"
| "returnsBeforeOomKiller SwapWithoutMemory = True"
| "returnsBeforeOomKiller (InvalidSwappiness swappiness) = True"
| "returnsBeforeOomKiller MinimumMemoryReservation = True"
| "returnsBeforeOomKiller MemoryLessThanReservation = True"
| "returnsBeforeOomKiller MinimumKernelMemory = True"
| "returnsBeforeOomKiller e = False"

definition reachesOomKiller :: "error option \<Rightarrow> bool" where
  "reachesOomKiller err = (case err of None \<Rightarrow> True | Some e \<Rightarrow> \<not> returnsBeforeOomKiller e)"

text \<open>
  The state with the CPU period unset and the CPU-period warning left out, and the
  statements that run on it as they run on the state itself.
\<close>

definition unsetPeriod :: "state \<Rightarrow> state" where
  "unsetPeriod st =
     (filter (\<lambda>msg. msg \<noteq> warnCPUCfsPeriod) (fst st), (snd st)\<lparr>cpuPeriod := 0\<rparr>)"

definition simulated :: "stmt \<Rightarrow> bool" where
  "simulated s =
     (\<forall>st st'. s st = (st', None) \<longrightarrow> s (unsetPeriod st) = (unsetPeriod st', None))"

section \<open>Properties of the volume validator\<close>

text \<open>
  C1: two options of one exclusive group in one entry (\<^verbatim>\<open>rw,ro\<close>) should be an error.
  The counters are tested with \<^verbatim>\<open>> 1\<close> before they are incremented, so the second
  option of a group passes and only the third is refused: \<^verbatim>\<open>validateVolumeOpts\<close>
  returns \<^verbatim>\<open>nil\<close> on \<^verbatim>\<open>rw,ro\<close>, and so does \<^verbatim>\<open>parseVolumes\<close> on
  \<^verbatim>\<open>/tmp:/data:rw,ro\<close> when \<^verbatim>\<open>/tmp\<close> exists, against the function's own message
  "can only specify 1 'rw' or 'ro' option".
\<close>

theorem validateVolumeOpts_rw_ro_accepted:
  "validateVolumeOpts ''rw,ro'' = NoError
   \<and> parseVolumes (\<lambda>p. p = ''/tmp'') [''/tmp:/data:rw,ro''] = NoError
   \<and> validateVolumeOpts ''z,Z'' = NoError
   \<and> validateVolumeOpts ''shared,rslave'' = NoError
   \<and> validateVolumeOpts ''rw,ro,rw'' = Err (OnlyOneRWRO ''rw,ro,rw'')"
  by (simp add: validateVolumeOpts_def Split_def validateVolumeOpts_switch_def parseVolumes_def
      parseVolumes_body_def validateVolumeHostDir_def validateVolumeCtrDir_def numeral_3_eq_3)

text \<open>
  C8: an entry whose container directory is empty (\<^verbatim>\<open>/tmp:\<close>) should be refused with
  an error. \<^verbatim>\<open>validateVolumeCtrDir\<close> reads \<^verbatim>\<open>ctrDir[0]\<close> without a test of the
  length, so on the empty string it panics, and \<^verbatim>\<open>parseVolumes\<close> with it.
\<close>

theorem parseVolumes_empty_ctrDir_panics:
  "validateVolumeCtrDir [] = Panic
   \<and> SplitN ''/tmp:'' CHR '':'' 3 = [''/tmp'', []]
   \<and> parseVolumes (\<lambda>p. p = ''/tmp'') [''/tmp:''] = Panic"
  by (simp add: parseVolumes_def
      parseVolumes_body_def validateVolumeHostDir_def validateVolumeCtrDir_def numeral_3_eq_3)

lemma parseVolumes_body_relative:
  assumes "SplitN volume CHR '':'' 3 = hostDir # ctrDir # rest"
    and "ctrDir \<noteq> []" and "hd ctrDir \<noteq> CHR ''/''"
  shows "parseVolumes_body osStat volume =
      Err (if osStat hostDir then InvalidContainerDirectory ctrDir else ErrorCheckingPath hostDir)"
  using assms
  by (cases ctrDir)
    (simp_all add: parseVolumes_body_def validateVolumeHostDir_def validateVolumeCtrDir_def)

lemma parseVolumes_loop_append:
  "parseVolumes_loop osStat pre = NoError \<Longrightarrow>
   parseVolumes_loop osStat (pre @ volumes) = parseVolumes_loop osStat volumes"
  by (induction pre) (auto split: result.splits)

lemma parseVolumes_loop_not_NoError:
  "volume \<in> set volumes \<Longrightarrow> parseVolumes_body osStat volume \<noteq> NoError \<Longrightarrow>
   parseVolumes_loop osStat volumes \<noteq> NoError"
  by (induction volumes) (auto split: result.splits)

text \<open>
  C10: an entry whose second part is not empty and does not start with \<^verbatim>\<open>/\<close> makes
  \<^verbatim>\<open>parseVolumes\<close> return an error. When the entries before it pass, the error is the
  one of this entry: the invalid container directory, or the error on the host directory
  when that does not exist, which is checked first. Wherever the entry stands in the list,
  \<^verbatim>\<open>parseVolumes\<close> does not return \<^verbatim>\<open>nil\<close>.
\<close>

theorem parseVolumes_relative_ctrDir:
  assumes "SplitN volume CHR '':'' 3 = hostDir # ctrDir # rest"
    and "ctrDir \<noteq> []" and "hd ctrDir \<noteq> CHR ''/''"
  shows "(parseVolumes osStat before = NoError \<longrightarrow>
          parseVolumes osStat (before @ volume # after) =
            Err (if osStat hostDir then InvalidContainerDirectory ctrDir
                 else ErrorCheckingPath hostDir))
       \<and> (volume \<in> set volumes \<longrightarrow> parseVolumes osStat volumes \<noteq> NoError)"
proof -
  note body = parseVolumes_body_relative [OF assms, of osStat]
  have "parseVolumes_loop osStat before = NoError \<Longrightarrow>
        parseVolumes_loop osStat (before @ volume # after) =
          Err (if osStat hostDir then InvalidContainerDirectory ctrDir
               else ErrorCheckingPath hostDir)"
    by (simp add: parseVolumes_loop_append body)
  moreover have "parseVolumes osStat before = NoError \<Longrightarrow>
      parseVolumes_loop osStat before = NoError"
    by (cases before) (simp_all add: parseVolumes_def)
  moreover have "volume \<in> set volumes \<Longrightarrow> parseVolumes_loop osStat volumes \<noteq> NoError"
    using parseVolumes_loop_not_NoError [of volume volumes osStat] body by simp
  ultimately show ?thesis
    by (auto simp: parseVolumes_def)
qed

text \<open>The entry \<^verbatim>\<open>/tmp:rel/path\<close>, on a host with \<^verbatim>\<open>/tmp\<close> and on one without.\<close>

theorem parseVolumes_relative_ctrDir_witness:
  "SplitN ''/tmp:rel/path'' CHR '':'' 3 = [''/tmp'', ''rel/path'']
   \<and> parseVolumes (\<lambda>p. p = ''/tmp'') [''/tmp:rel/path'']
       = Err (InvalidContainerDirectory ''rel/path'')
   \<and> parseVolumes (\<lambda>p. False) [''/tmp:rel/path''] = Err (ErrorCheckingPath ''/tmp'')"
proof -
  have s: "SplitN ''/tmp:rel/path'' CHR '':'' 3 = [''/tmp'', ''rel/path'']"
    by (simp add: numeral_3_eq_3)
  have n: "''rel/path'' \<noteq> []" and h: "hd ''rel/path'' \<noteq> CHR ''/''" by simp_all
  from parseVolumes_relative_ctrDir [OF s n h, of "\<lambda>p. p = ''/tmp''" "[]" "[]"]
       parseVolumes_relative_ctrDir [OF s n h, of "\<lambda>p. False" "[]" "[]"] s
  show ?thesis by (simp add: parseVolumes_def)
qed

section \<open>Properties of the resource validator\<close>

subsection \<open>Statements of the shapes the function is made of\<close>

lemmas stmt_defs = Return_def Warn_def Assign_def IfThen_def IfThenElse_def addWarning_def

lemmas verify_defs = verifyContainerResources_def verifyContainerResources_body_def

lemma check_eq:
  "IfThen b (Return e) (w, c) = (if b c then ((w, c), Some (e c)) else ((w, c), None))"
  by (simp add: stmt_defs)

lemma downgrade1_eq:
  "IfThen b (Block [Warn m, Assign f]) (w, c) =
     (if b c then ((w @ [m], f c), None) else ((w, c), None))"
  by (simp add: stmt_defs)

lemma downgrade2_eq:
  "IfThen b (Block [Warn m, Assign f, Assign g]) (w, c) =
     (if b c then ((w @ [m], g (f c)), None) else ((w, c), None))"
  by (simp add: stmt_defs)

lemma nested_eq:
  "IfThen b (IfThenElse b1 (Block [Warn m, Assign f]) (IfThen b2 (Return e))) (w, c) =
     (if b c then
        (if b1 c then ((w @ [m], f c), None)
         else if b2 c then ((w, c), Some (e c)) else ((w, c), None))
      else ((w, c), None))"
  by (simp add: stmt_defs)

lemmas shape_eqs = check_eq downgrade1_eq downgrade2_eq nested_eq

lemma stable_check: "stable (IfThen b (Return e)) c = (\<not> b c)"
  by (simp add: stable_def check_eq)

lemma stable_downgrade1: "stable (IfThen b (Block [Warn m, Assign f])) c = (\<not> b c)"
  by (simp add: stable_def downgrade1_eq)

lemma stable_downgrade2: "stable (IfThen b (Block [Warn m, Assign f, Assign g])) c = (\<not> b c)"
  by (simp add: stable_def downgrade2_eq)

lemma stable_nested:
  "stable (IfThen b (IfThenElse b1 (Block [Warn m, Assign f]) (IfThen b2 (Return e)))) c
     = (b c \<longrightarrow> \<not> b1 c \<and> \<not> b2 c)"
  by (auto simp add: stable_def nested_eq)

lemmas stable_simps = stable_check stable_downgrade1 stable_downgrade2 stable_nested

lemma keeps_check: "keeps (IfThen b (Return e)) s"
  by (auto simp add: keeps_def check_eq split: if_splits)

lemma keeps_downgrade1:
  "keeps (IfThen b (Block [Warn m, Assign f])) s = (\<forall>c. stable s c \<and> b c \<longrightarrow> stable s (f c))"
  by (auto simp add: keeps_def downgrade1_eq split: if_splits)

lemma keeps_downgrade2:
  "keeps (IfThen b (Block [Warn m, Assign f, Assign g])) s
     = (\<forall>c. stable s c \<and> b c \<longrightarrow> stable s (g (f c)))"
  by (auto simp add: keeps_def downgrade2_eq split: if_splits)

lemma keeps_nested:
  "keeps (IfThen b (IfThenElse b1 (Block [Warn m, Assign f]) (IfThen b2 (Return e)))) s
     = (\<forall>c. stable s c \<and> b c \<and> b1 c \<longrightarrow> stable s (f c))"
  by (auto simp add: keeps_def nested_eq split: if_splits)

lemmas keeps_simps = keeps_check keeps_downgrade1 keeps_downgrade2 keeps_nested

lemma establishes_check: "establishes (IfThen b (Return e))"
  by (auto simp add: establishes_def stable_check check_eq split: if_splits)

lemma establishes_downgrade1:
  "establishes (IfThen b (Block [Warn m, Assign f])) = (\<forall>c. b c \<longrightarrow> \<not> b (f c))"
  by (auto simp add: establishes_def stable_downgrade1 downgrade1_eq split: if_splits)

lemma establishes_downgrade2:
  "establishes (IfThen b (Block [Warn m, Assign f, Assign g])) = (\<forall>c. b c \<longrightarrow> \<not> b (g (f c)))"
  by (auto simp add: establishes_def stable_downgrade2 downgrade2_eq split: if_splits)

lemma establishes_nested:
  "establishes (IfThen b (IfThenElse b1 (Block [Warn m, Assign f]) (IfThen b2 (Return e))))
     = (\<forall>c. b c \<and> b1 c \<longrightarrow> (b (f c) \<longrightarrow> \<not> b1 (f c) \<and> \<not> b2 (f c)))"
  by (auto simp add: establishes_def stable_nested nested_eq split: if_splits)

lemmas establishes_simps =
  establishes_check establishes_downgrade1 establishes_downgrade2 establishes_nested

subsection \<open>Blocks\<close>

lemma Block_error_cases:
  "Block ss st = (st', Some e) \<Longrightarrow>
   \<exists>before check after st1. ss = before @ check # after
      \<and> Block before st = (st1, None) \<and> check st1 = (st', Some e)"
proof (induction ss arbitrary: st)
  case Nil
  then show ?case by simp
next
  case (Cons s ss)
  obtain st1 r where s: "s st = (st1, r)" by (cases "s st")
  show ?case
  proof (cases r)
    case (Some e')
    with s Cons.prems have "s st = (st', Some e)" by simp
    then have "s # ss = [] @ s # ss \<and> Block [] st = (st, None) \<and> s st = (st', Some e)"
      by simp
    then show ?thesis by blast
  next
    case None
    with s Cons.prems have "Block ss st1 = (st', Some e)" by simp
    from Cons.IH [OF this] obtain before check after st2 where
      "ss = before @ check # after" "Block before st1 = (st2, None)" "check st2 = (st', Some e)"
      by blast
    with s None have "s # ss = (s # before) @ check # after
        \<and> Block (s # before) st = (st2, None) \<and> check st2 = (st', Some e)"
      by simp
    then show ?thesis by blast
  qed
qed

lemma Block_append_error:
  "Block before st = (st1, None) \<Longrightarrow> check st1 = (st', Some e) \<Longrightarrow>
   Block (before @ check # rest) st = (st', Some e)"
  by (induction before arbitrary: st) (auto split: prod.splits option.splits)

lemma Block_append_normal:
  "Block before st = (st1, None) \<Longrightarrow> Block (before @ rest) st = Block rest st1"
  by (induction before arbitrary: st) (auto split: prod.splits option.splits)

lemma failing_check_mutates_nothing:
  "s \<in> set (verifyContainerResources_body sysInfo update) \<Longrightarrow> s st = (st', Some e) \<Longrightarrow> st' = st"
  unfolding verifyContainerResources_body_def
  by (cases st) (auto simp add: shape_eqs split: if_splits)

lemma Block_append_Some:
  "Block before st = (st1, Some e) \<Longrightarrow> Block (before @ rest) st = (st1, Some e)"
  by (induction before arbitrary: st) (auto split: prod.splits option.splits)

subsection \<open>The warnings differ\<close>

lemmas warning_defs = warnMemoryLimit_def warnSwapLimit_def warnMemorySwappiness_def warnMemoryReservation_def warnKernelMemory_def warnOomKillDisable_def warnPidsLimit_def warnCPUShares_def warnCPUCfsPeriod_def warnCPUCfsQuota_def warnCpuset_def warnBlkioWeight_def warnBlkioWeightDevice_def warnBlkioReadBpsDevice_def warnBlkioWriteBpsDevice_def warnBlkioReadIOpsDevice_def warnBlkioWriteIOpsDevice_def

lemma warnOomKillDisable_unique:
  "warnOomKillDisable \<notin> set [warnMemoryLimit, warnSwapLimit, warnMemorySwappiness, warnMemoryReservation, warnKernelMemory, warnPidsLimit, warnCPUShares, warnCPUCfsPeriod, warnCPUCfsQuota, warnCpuset, warnBlkioWeight, warnBlkioWeightDevice, warnBlkioReadBpsDevice, warnBlkioWriteBpsDevice, warnBlkioReadIOpsDevice, warnBlkioWriteIOpsDevice]"
  "\<forall>msg\<in>set [warnMemoryLimit, warnSwapLimit, warnMemorySwappiness, warnMemoryReservation, warnKernelMemory, warnPidsLimit, warnCPUShares, warnCPUCfsPeriod, warnCPUCfsQuota, warnCpuset, warnBlkioWeight, warnBlkioWeightDevice, warnBlkioReadBpsDevice, warnBlkioWriteBpsDevice, warnBlkioReadIOpsDevice, warnBlkioWriteIOpsDevice]. msg \<noteq> warnOomKillDisable"
  by (simp_all add: warning_defs)

lemma warnCPUCfsPeriod_unique:
  "warnCPUCfsPeriod \<notin> set [warnMemoryLimit, warnSwapLimit, warnMemorySwappiness, warnMemoryReservation, warnKernelMemory, warnOomKillDisable, warnPidsLimit, warnCPUShares, warnCPUCfsQuota, warnCpuset, warnBlkioWeight, warnBlkioWeightDevice, warnBlkioReadBpsDevice, warnBlkioWriteBpsDevice, warnBlkioReadIOpsDevice, warnBlkioWriteIOpsDevice]"
  "\<forall>msg\<in>set [warnMemoryLimit, warnSwapLimit, warnMemorySwappiness, warnMemoryReservation, warnKernelMemory, warnOomKillDisable, warnPidsLimit, warnCPUShares, warnCPUCfsQuota, warnCpuset, warnBlkioWeight, warnBlkioWeightDevice, warnBlkioReadBpsDevice, warnBlkioWriteBpsDevice, warnBlkioReadIOpsDevice, warnBlkioWriteIOpsDevice]. msg \<noteq> warnCPUCfsPeriod"
  by (simp_all add: warning_defs)

subsection \<open>The memory checks\<close>

text \<open>
  C4: a requested memory \<open>m\<close> with \<open>0 < m < 4194304\<close> is refused with the minimum-memory
  error, whatever the capability report, the other fields and the update flag are: the
  check is the first statement, so no warning has been added and nothing has been changed.
\<close>

theorem memory_below_minimum_rejected:
  assumes "0 < memory config" and "memory config < 4194304"
  shows "verifyContainerResources sysInfo config update = ([], Some MinimumMemory, config)"
  using assms by (simp add: verify_defs stmt_defs linuxMinMemory_def)

theorem memory_below_minimum_rejected_witness:
  "verifyContainerResources noCapabilities (unsetResources\<lparr>memory := 1024\<rparr>) False
     = ([], Some MinimumMemory, unsetResources\<lparr>memory := 1024\<rparr>)"
  using memory_below_minimum_rejected [of "unsetResources\<lparr>memory := 1024\<rparr>" noCapabilities False]
  by (simp add: unsetResources_def)

text \<open>
  C3: a request for at least 4 MiB of memory, every other field unset (the swap may be
  anything), on a host without the memory-limit capability: no error, the memory is reset
  to 0 and the swap to -1, and the warnings are the one memory-limit warning. The two
  cpuset queries of the report are asked about the empty string, which they are assumed to
  find available.
\<close>

theorem memory_limit_unsupported_downgrade:
  assumes "linuxMinMemory \<le> m" and "\<not> MemoryLimit sysInfo"
    and "IsCpusetCpusAvailable sysInfo [] = Some True"
    and "IsCpusetMemsAvailable sysInfo [] = Some True"
  shows "verifyContainerResources sysInfo
           (unsetResources\<lparr>memory := m, memorySwap := swap\<rparr>) update
       = ([warnMemoryLimit], None, unsetResources\<lparr>memory := 0, memorySwap := - 1\<rparr>)"
  using assms by (simp add: verify_defs stmt_defs linuxMinMemory_def unsetResources_def)

theorem memory_limit_unsupported_downgrade_witness:
  "linuxMinMemory \<le> 8388608 \<and> \<not> MemoryLimit noCapabilities
   \<and> verifyContainerResources noCapabilities
       (unsetResources\<lparr>memory := 8388608, memorySwap := 16777216\<rparr>) False
     = ([warnMemoryLimit], None, unsetResources\<lparr>memory := 0, memorySwap := - 1\<rparr>)"
proof -
  have m: "linuxMinMemory \<le> 8388608" by (simp add: linuxMinMemory_def)
  have c: "\<not> MemoryLimit noCapabilities" by (simp add: noCapabilities_def)
  have q: "IsCpusetCpusAvailable noCapabilities [] = Some True"
    "IsCpusetMemsAvailable noCapabilities [] = Some True" by (simp_all add: noCapabilities_def)
  from memory_limit_unsupported_downgrade [OF m c q, of 16777216 False] m c
  show ?thesis by simp
qed

text \<open>
  C2, as the code has it: a request for at least 4 MiB of memory with a swap that is
  positive and smaller than the memory is refused with the swap-ordering error when the
  host has both the memory-limit and the swap-limit capability; no warning has been added
  and nothing has been changed.
\<close>

theorem swap_ordering_with_capabilities:
  assumes "linuxMinMemory \<le> memory config" and "0 < memorySwap config"
    and "memorySwap config < memory config"
    and "MemoryLimit sysInfo" and "SwapLimit sysInfo"
  shows "verifyContainerResources sysInfo config update = ([], Some SwapLessThanMemory, config)"
  using assms by (simp add: verify_defs stmt_defs linuxMinMemory_def)

theorem swap_ordering_with_capabilities_witness:
  "verifyContainerResources allCapabilities
     (unsetResources\<lparr>memory := 8388608, memorySwap := 4194304\<rparr>) False
     = ([], Some SwapLessThanMemory,
        unsetResources\<lparr>memory := 8388608, memorySwap := 4194304\<rparr>)"
  using swap_ordering_with_capabilities
    [of "unsetResources\<lparr>memory := 8388608, memorySwap := 4194304\<rparr>" allCapabilities False]
  by (simp add: unsetResources_def allCapabilities_def linuxMinMemory_def)

text \<open>
  C2, as it is stated, fails: with 8 MiB of memory and 4 MiB of swap the validator
  succeeds on a host without the memory-limit capability and on a host without the
  swap-limit capability (the swap is reset to -1 before the ordering is checked), and with
  2048 bytes of memory and 1024 of swap the error is the minimum-memory one.
\<close>

theorem swap_ordering_not_for_every_report:
  "verifyContainerResources noCapabilities
     (unsetResources\<lparr>memory := 8388608, memorySwap := 4194304\<rparr>) False
     = ([warnMemoryLimit], None, unsetResources\<lparr>memory := 0, memorySwap := - 1\<rparr>)
   \<and> verifyContainerResources (allCapabilities\<lparr>SwapLimit := False\<rparr>)
       (unsetResources\<lparr>memory := 8388608, memorySwap := 4194304\<rparr>) False
     = ([warnSwapLimit], None, unsetResources\<lparr>memory := 8388608, memorySwap := - 1\<rparr>)
   \<and> verifyContainerResources allCapabilities
       (unsetResources\<lparr>memory := 2048, memorySwap := 1024\<rparr>) False
     = ([], Some MinimumMemory, unsetResources\<lparr>memory := 2048, memorySwap := 1024\<rparr>)"
  by (simp add: verify_defs stmt_defs linuxMinMemory_def unsetResources_def
      noCapabilities_def allCapabilities_def)

subsection \<open>The first error ends the function\<close>

text \<open>
  C5: when the function returns an error, its statements split into the ones before the
  failing check, the failing check and the ones after it. The ones before ran without an
  error, and the warnings and the resources returned are exactly the ones they left: every
  warning they added and every field they changed. The failing check changes nothing, and
  no statement after it has any effect: the result is the same whatever follows the check.
\<close>

theorem verifyContainerResources_short_circuit:
  assumes "verifyContainerResources sysInfo config update = (warnings, Some e, config')"
  shows "\<exists>before check after.
           verifyContainerResources_body sysInfo update = before @ check # after
         \<and> Block before ([], config) = ((warnings, config'), None)
         \<and> check (warnings, config') = ((warnings, config'), Some e)
         \<and> (\<forall>rest. Block (before @ check # rest) ([], config)
                     = ((warnings, config'), Some e))"
proof -
  from assms have "Block (verifyContainerResources_body sysInfo update) ([], config)
      = ((warnings, config'), Some e)"
    by (auto simp add: verifyContainerResources_def split: prod.splits)
  from Block_error_cases [OF this] obtain before check after st1 where
    body: "verifyContainerResources_body sysInfo update = before @ check # after"
    and before: "Block before ([], config) = (st1, None)"
    and check: "check st1 = ((warnings, config'), Some e)"
    by blast
  from body have "check \<in> set (verifyContainerResources_body sysInfo update)" by simp
  from failing_check_mutates_nothing [OF this check] have st1: "st1 = (warnings, config')"
    by simp
  from before check st1 have "\<forall>rest. Block (before @ check # rest) ([], config)
      = ((warnings, config'), Some e)"
    by (simp add: Block_append_error)
  with body before check st1 show ?thesis by blast
qed

text \<open>
  A request that is downgraded (memory, on a host without the memory limit) before it
  fails (a CPU period of 500): the warning of the downgrade is returned with the error,
  the memory and the swap are reset, and the CPU period is as requested.
\<close>

theorem verifyContainerResources_short_circuit_witness:
  "verifyContainerResources (allCapabilities\<lparr>MemoryLimit := False\<rparr>)
       (unsetResources\<lparr>memory := 8388608, cpuPeriod := 500\<rparr>) False
     = ([warnMemoryLimit], Some CpuPeriodRange,
        unsetResources\<lparr>memory := 0, memorySwap := - 1, cpuPeriod := 500\<rparr>)
   \<and> (\<exists>before check after.
         verifyContainerResources_body (allCapabilities\<lparr>MemoryLimit := False\<rparr>) False
           = before @ check # after
       \<and> Block before ([], unsetResources\<lparr>memory := 8388608, cpuPeriod := 500\<rparr>)
           = (([warnMemoryLimit],
               unsetResources\<lparr>memory := 0, memorySwap := - 1, cpuPeriod := 500\<rparr>), None)
       \<and> check ([warnMemoryLimit],
                 unsetResources\<lparr>memory := 0, memorySwap := - 1, cpuPeriod := 500\<rparr>)
           = (([warnMemoryLimit],
               unsetResources\<lparr>memory := 0, memorySwap := - 1, cpuPeriod := 500\<rparr>),
              Some CpuPeriodRange))"
proof -
  have v: "verifyContainerResources (allCapabilities\<lparr>MemoryLimit := False\<rparr>)
       (unsetResources\<lparr>memory := 8388608, cpuPeriod := 500\<rparr>) False
     = ([warnMemoryLimit], Some CpuPeriodRange,
        unsetResources\<lparr>memory := 0, memorySwap := - 1, cpuPeriod := 500\<rparr>)"
    by (simp add: verify_defs stmt_defs linuxMinMemory_def unsetResources_def
        allCapabilities_def)
  from verifyContainerResources_short_circuit [OF v] v show ?thesis by blast
qed

subsection \<open>Validating twice\<close>

lemma keeps_Block:
  "\<forall>t\<in>set ss. keeps t s \<Longrightarrow> stable s c \<Longrightarrow> Block ss (w, c) = ((w', c'), None) \<Longrightarrow> stable s c'"
proof (induction ss arbitrary: w c)
  case Nil
  then show ?case by simp
next
  case (Cons t ss)
  from Cons.prems(3) obtain w1 c1 where t: "t (w, c) = ((w1, c1), None)"
    and rest: "Block ss (w1, c1) = ((w', c'), None)"
    by (auto split: prod.splits option.splits)
  from Cons.prems(1,2) t have "stable s c1"
    unfolding keeps_def by (meson list.set_intros(1))
  with Cons.IH [of c1 w1] Cons.prems(1) rest show ?case by simp
qed

lemma settles_stable:
  "settles ss \<Longrightarrow> Block ss (w, c) = ((w', c'), None) \<Longrightarrow> \<forall>s\<in>set ss. stable s c'"
proof (induction ss arbitrary: w c)
  case Nil
  then show ?case by simp
next
  case (Cons s ss)
  from Cons.prems(2) obtain w1 c1 where s: "s (w, c) = ((w1, c1), None)"
    and rest: "Block ss (w1, c1) = ((w', c'), None)"
    by (auto split: prod.splits option.splits)
  from Cons.prems(1) have "establishes s" by simp
  with s have "stable s c1"
    unfolding establishes_def by blast
  with Cons.prems(1) rest have "stable s c'"
    using keeps_Block [of ss s c1 w1 w' c'] by simp
  moreover from Cons.IH [of w1 c1] Cons.prems(1) rest have "\<forall>s\<in>set ss. stable s c'" by simp
  ultimately show ?case by simp
qed

lemma stable_Block: "\<forall>s\<in>set ss. stable s c \<Longrightarrow> Block ss (w, c) = ((w, c), None)"
  by (induction ss) (simp_all add: stable_def)

lemma settles_body: "settles (verifyContainerResources_body sysInfo update)"
  unfolding verifyContainerResources_body_def
  by (simp add: stable_simps keeps_simps establishes_simps) force

text \<open>
  C6: when the function succeeds, running it again on the resources it left, with the
  same capability report and the same update flag, succeeds with no warning and leaves
  every field as it is.
\<close>

theorem verifyContainerResources_idempotent:
  assumes "verifyContainerResources sysInfo config update = (warnings, None, config')"
  shows "verifyContainerResources sysInfo config' update = ([], None, config')"
proof -
  from assms have "Block (verifyContainerResources_body sysInfo update) ([], config)
      = ((warnings, config'), None)"
    by (auto simp add: verifyContainerResources_def split: prod.splits)
  then have "\<forall>s\<in>set (verifyContainerResources_body sysInfo update). stable s config'"
    using settles_stable [OF settles_body] by blast
  then have "Block (verifyContainerResources_body sysInfo update) ([], config')
      = (([], config'), None)"
    by (rule stable_Block)
  then show ?thesis by (simp add: verifyContainerResources_def)
qed

text \<open>A request with three downgrades on a host without capabilities, validated twice.\<close>

theorem verifyContainerResources_idempotent_witness:
  "verifyContainerResources noCapabilities
       (unsetResources\<lparr>memory := 8388608, memorySwap := 16777216, disableOomKiller := True,
                       cpuShares := 512\<rparr>) False
     = ([warnMemoryLimit, warnOomKillDisable, warnCPUShares], None,
        unsetResources\<lparr>memory := 0, memorySwap := - 1\<rparr>)
   \<and> verifyContainerResources noCapabilities
       (unsetResources\<lparr>memory := 0, memorySwap := - 1\<rparr>) False
     = ([], None, unsetResources\<lparr>memory := 0, memorySwap := - 1\<rparr>)"
proof -
  have v: "verifyContainerResources noCapabilities
       (unsetResources\<lparr>memory := 8388608, memorySwap := 16777216, disableOomKiller := True,
                       cpuShares := 512\<rparr>) False
     = ([warnMemoryLimit, warnOomKillDisable, warnCPUShares], None,
        unsetResources\<lparr>memory := 0, memorySwap := - 1\<rparr>)"
    by (simp add: verify_defs stmt_defs linuxMinMemory_def unsetResources_def
        noCapabilities_def)
  from verifyContainerResources_idempotent [OF v] v show ?thesis by simp
qed

subsection \<open>The OOM killer\<close>

lemma preserves_Block:
  "\<forall>s\<in>set ss. preserves I s \<Longrightarrow> I st \<Longrightarrow> Block ss st = (st', r) \<Longrightarrow> I st'"
proof (induction ss arbitrary: st)
  case Nil
  then show ?case by simp
next
  case (Cons s ss)
  obtain st1 r1 where s: "s st = (st1, r1)" by (cases "s st")
  from Cons.prems(1,2) s have I1: "I st1"
    unfolding preserves_def by (meson list.set_intros(1))
  show ?case
  proof (cases r1)
    case None
    with s Cons.prems(3) have "Block ss st1 = (st', r)" by simp
    with Cons.IH [of st1] Cons.prems(1) I1 show ?thesis by simp
  next
    case (Some e)
    with s Cons.prems(3) have "st' = st1" by simp
    with I1 show ?thesis by simp
  qed
qed

lemma preserves_check: "preserves I (IfThen b (Return e))"
  by (auto simp add: preserves_def IfThen_def Return_def split: if_splits)

lemma preserves_downgrade1:
  "preserves I (IfThen b (Block [Warn m, Assign f]))
     = (\<forall>w c. I (w, c) \<and> b c \<longrightarrow> I (w @ [m], f c))"
  by (auto simp add: preserves_def downgrade1_eq split: if_splits)

lemma preserves_downgrade2:
  "preserves I (IfThen b (Block [Warn m, Assign f, Assign g]))
     = (\<forall>w c. I (w, c) \<and> b c \<longrightarrow> I (w @ [m], g (f c)))"
  by (auto simp add: preserves_def downgrade2_eq split: if_splits)

lemma preserves_nested:
  "preserves I (IfThen b (IfThenElse b1 (Block [Warn m, Assign f]) (IfThen b2 (Return e))))
     = (\<forall>w c. I (w, c) \<and> b c \<and> b1 c \<longrightarrow> I (w @ [m], f c))"
  by (auto simp add: preserves_def nested_eq split: if_splits)

lemmas preserves_simps =
  preserves_check preserves_downgrade1 preserves_downgrade2 preserves_nested

lemma oom_not_requested_invariant:
  "\<not> OomKillDisable sysInfo \<Longrightarrow>
   \<forall>s\<in>set (verifyContainerResources_body sysInfo update).
     preserves (\<lambda>st. warnOomKillDisable \<notin> set (fst st) \<and> \<not> disableOomKiller (snd st)) s"
  unfolding verifyContainerResources_body_def
  using warnOomKillDisable_unique(1) by (simp add: preserves_simps)

lemma body_split_oom:
  "verifyContainerResources_body sysInfo update =
     take 11 (verifyContainerResources_body sysInfo update)
     @ IfThen (\<lambda>config. disableOomKiller config = True \<and> \<not> OomKillDisable sysInfo)
         (Block [Warn warnOomKillDisable,
                 Assign (\<lambda>config. config\<lparr>disableOomKiller := False\<rparr>)])
     # drop 12 (verifyContainerResources_body sysInfo update)"
  by (simp add: verifyContainerResources_body_def)

lemma before_oom_invariant:
  "\<forall>s\<in>set (take 11 (verifyContainerResources_body sysInfo update)).
     preserves (\<lambda>st. warnOomKillDisable \<notin> set (fst st) \<and> disableOomKiller (snd st)) s"
  unfolding verifyContainerResources_body_def
  using warnOomKillDisable_unique(1) by (simp add: preserves_simps)

lemma before_oom_errors:
  "s \<in> set (take 11 (verifyContainerResources_body sysInfo update)) \<Longrightarrow>
   s st = (st', Some e) \<Longrightarrow> returnsBeforeOomKiller e"
  unfolding verifyContainerResources_body_def
  by (cases st) (auto simp add: shape_eqs split: if_splits)

lemma after_oom_invariant:
  "\<forall>s\<in>set (drop 12 (verifyContainerResources_body sysInfo update)).
     preserves (\<lambda>st. warnOomKillDisable \<in> set (fst st) \<and> \<not> disableOomKiller (snd st)) s"
  unfolding verifyContainerResources_body_def
  by (simp add: preserves_simps)

lemma oom_requested:
  assumes cap: "\<not> OomKillDisable sysInfo" and req: "disableOomKiller config"
    and run: "Block (verifyContainerResources_body sysInfo update) ([], config) = ((ws, config'), err)"
    and reach: "reachesOomKiller err"
  shows "warnOomKillDisable \<in> set ws \<and> \<not> disableOomKiller config'"
proof -
  let ?pre = "take 11 (verifyContainerResources_body sysInfo update)"
  let ?post = "drop 12 (verifyContainerResources_body sysInfo update)"
  let ?oom = "IfThen (\<lambda>config. disableOomKiller config = True \<and> \<not> OomKillDisable sysInfo)
         (Block [Warn warnOomKillDisable,
                 Assign (\<lambda>config. config\<lparr>disableOomKiller := False\<rparr>)])"
  have split: "verifyContainerResources_body sysInfo update = ?pre @ ?oom # ?post"
    by (rule body_split_oom)
  obtain w1 c1 r1 where pre: "Block ?pre ([], config) = ((w1, c1), r1)"
    by (metis surj_pair)
  show ?thesis
  proof (cases r1)
    case (Some e)
    with pre have "Block (?pre @ ?oom # ?post) ([], config) = ((w1, c1), Some e)"
      by (simp add: Block_append_Some)
    with split run have err: "err = Some e" by simp
    from pre Some Block_error_cases [of ?pre "([], config)" "(w1, c1)" e]
    obtain check st1 where "check \<in> set ?pre" "check st1 = ((w1, c1), Some e)"
      by (metis in_set_conv_decomp)
    then have "returnsBeforeOomKiller e" by (rule before_oom_errors)
    with err reach show ?thesis by (simp add: reachesOomKiller_def)
  next
    case None
    with pre have pre': "Block ?pre ([], config) = ((w1, c1), None)" by simp
    from preserves_Block [OF before_oom_invariant _ pre'] req
    have c1: "disableOomKiller c1" by simp
    from pre' have "Block (?pre @ ?oom # ?post) ([], config) = Block (?oom # ?post) (w1, c1)"
      by (rule Block_append_normal)
    with split run have "Block (?oom # ?post) (w1, c1) = ((ws, config'), err)" by simp
    with c1 cap have post: "Block ?post (w1 @ [warnOomKillDisable], c1\<lparr>disableOomKiller := False\<rparr>)
        = ((ws, config'), err)"
      by (simp add: downgrade1_eq)
    from preserves_Block [OF after_oom_invariant _ post] show ?thesis by simp
  qed
qed

text \<open>
  C7, as the code has it, on a host without the OOM-kill-disable capability: when the
  function gets as far as the statement on \<^verbatim>\<open>disableOomKiller\<close> (it succeeds, or fails
  in a later check), the OOM-killer warning is among the warnings exactly when the request
  had \<^verbatim>\<open>disableOomKiller\<close> set, and the field is false afterwards. When the request had
  it unset, there is no OOM-killer warning and the field stays false, however the function
  ends.
\<close>

theorem oom_killer_warning:
  assumes "\<not> OomKillDisable sysInfo"
    and "verifyContainerResources sysInfo config update = (warnings, err, config')"
  shows "(reachesOomKiller err \<longrightarrow>
            (warnOomKillDisable \<in> set warnings \<longleftrightarrow> disableOomKiller config)
            \<and> \<not> disableOomKiller config')
       \<and> (\<not> disableOomKiller config \<longrightarrow>
            warnOomKillDisable \<notin> set warnings \<and> \<not> disableOomKiller config')"
proof -
  from assms(2) have run: "Block (verifyContainerResources_body sysInfo update) ([], config)
      = ((warnings, config'), err)"
    by (auto simp add: verifyContainerResources_def split: prod.splits)
  have off: "warnOomKillDisable \<notin> set warnings \<and> \<not> disableOomKiller config'"
    if "\<not> disableOomKiller config"
    using preserves_Block [OF oom_not_requested_invariant [OF assms(1)] _ run] that by simp
  have on: "warnOomKillDisable \<in> set warnings \<and> \<not> disableOomKiller config'"
    if "disableOomKiller config" "reachesOomKiller err"
    using oom_requested [OF assms(1) that(1) run that(2)] .
  from off on show ?thesis by blast
qed

text \<open>
  A request that sets \<^verbatim>\<open>disableOomKiller\<close> and a CPU period of 500, on a host that lacks
  only the OOM-kill-disable capability: the function fails after the statement on the OOM
  killer, with the warning.
\<close>

theorem oom_killer_warning_witness:
  "\<not> OomKillDisable (allCapabilities\<lparr>OomKillDisable := False\<rparr>)
   \<and> verifyContainerResources (allCapabilities\<lparr>OomKillDisable := False\<rparr>)
       (unsetResources\<lparr>disableOomKiller := True, cpuPeriod := 500\<rparr>) False
     = ([warnOomKillDisable], Some CpuPeriodRange, unsetResources\<lparr>cpuPeriod := 500\<rparr>)
   \<and> reachesOomKiller (Some CpuPeriodRange)
   \<and> disableOomKiller (unsetResources\<lparr>disableOomKiller := True, cpuPeriod := 500\<rparr>)
   \<and> warnOomKillDisable \<in> set [warnOomKillDisable]
   \<and> \<not> disableOomKiller (unsetResources\<lparr>cpuPeriod := 500\<rparr>)"
proof -
  have c: "\<not> OomKillDisable (allCapabilities\<lparr>OomKillDisable := False\<rparr>)" by simp
  have v: "verifyContainerResources (allCapabilities\<lparr>OomKillDisable := False\<rparr>)
       (unsetResources\<lparr>disableOomKiller := True, cpuPeriod := 500\<rparr>) False
     = ([warnOomKillDisable], Some CpuPeriodRange, unsetResources\<lparr>cpuPeriod := 500\<rparr>)"
    by (simp add: verify_defs stmt_defs linuxMinMemory_def unsetResources_def
        allCapabilities_def)
  have r: "reachesOomKiller (Some CpuPeriodRange)" by (simp add: reachesOomKiller_def)
  from oom_killer_warning [OF c v] c v r show ?thesis by (simp add: unsetResources_def)
qed

text \<open>
  C7, as it is stated, fails: a request with \<^verbatim>\<open>disableOomKiller\<close> set and 1024 bytes
  of memory is refused by the first check, before the statement on the OOM killer: there
  is no warning, and the field is still set.
\<close>

theorem oom_killer_warning_not_before_error:
  "\<not> OomKillDisable noCapabilities
   \<and> disableOomKiller (unsetResources\<lparr>memory := 1024, disableOomKiller := True\<rparr>)
   \<and> verifyContainerResources noCapabilities
       (unsetResources\<lparr>memory := 1024, disableOomKiller := True\<rparr>) False
     = ([], Some MinimumMemory, unsetResources\<lparr>memory := 1024, disableOomKiller := True\<rparr>)"
  by (simp add: verify_defs stmt_defs linuxMinMemory_def unsetResources_def noCapabilities_def)

subsection \<open>The CPU period\<close>

lemma period_unset_invariant:
  "\<forall>s\<in>set (verifyContainerResources_body sysInfo update).
     preserves (\<lambda>st. warnCPUCfsPeriod \<notin> set (fst st) \<and> cpuPeriod (snd st) = 0) s"
  unfolding verifyContainerResources_body_def
  using warnCPUCfsPeriod_unique(1) by (simp add: preserves_simps)

lemma period_unset_no_error:
  "s \<in> set (verifyContainerResources_body sysInfo update) \<Longrightarrow> cpuPeriod (snd st) = 0 \<Longrightarrow>
   s st = (st', Some e) \<Longrightarrow> e \<noteq> CpuPeriodRange"
  unfolding verifyContainerResources_body_def
  by (cases st) (auto simp add: shape_eqs split: if_splits)

lemma simulated_Block:
  "\<forall>s\<in>set ss. simulated s \<Longrightarrow> Block ss st = (st', None) \<Longrightarrow>
   Block ss (unsetPeriod st) = (unsetPeriod st', None)"
proof (induction ss arbitrary: st)
  case Nil
  then show ?case by simp
next
  case (Cons s ss)
  from Cons.prems(2) obtain st1 where s: "s st = (st1, None)"
    and rest: "Block ss st1 = (st', None)"
    by (auto split: prod.splits option.splits)
  from Cons.prems(1) s have "s (unsetPeriod st) = (unsetPeriod st1, None)"
    unfolding simulated_def by (meson list.set_intros(1))
  moreover from Cons.IH [of st1] Cons.prems(1) rest
  have "Block ss (unsetPeriod st1) = (unsetPeriod st', None)" by simp
  ultimately show ?case by simp
qed

lemma simulated_body:
  "\<forall>s\<in>set (verifyContainerResources_body sysInfo update). simulated s"
  unfolding verifyContainerResources_body_def simulated_def unsetPeriod_def
  using warnCPUCfsPeriod_unique(2) by (auto simp add: shape_eqs split: if_splits)

text \<open>
  C9: a request with \<^verbatim>\<open>cpuPeriod == 0\<close>, for every capability report, every other field
  and either update flag. However the function ends, it does not return the CPU-period
  error, adds no CPU-period warning and leaves \<^verbatim>\<open>cpuPeriod\<close> at 0. And when the other
  fields are legal, that is, the request passes with some CPU period in place of 0, then
  it passes with 0 as well, with the same warnings but the one on the CPU period and
  the same resources but the CPU period, which is 0.
\<close>

theorem cpuPeriod_unset_is_legal:
  assumes "cpuPeriod config = 0"
  shows "(case verifyContainerResources sysInfo config update of
            (warnings, err, config') \<Rightarrow>
              err \<noteq> Some CpuPeriodRange \<and> warnCPUCfsPeriod \<notin> set warnings
              \<and> cpuPeriod config' = 0)
       \<and> (\<forall>period warnings config'.
            verifyContainerResources sysInfo (config\<lparr>cpuPeriod := period\<rparr>) update
              = (warnings, None, config') \<longrightarrow>
            verifyContainerResources sysInfo config update
              = (filter (\<lambda>msg. msg \<noteq> warnCPUCfsPeriod) warnings, None,
                 config'\<lparr>cpuPeriod := 0\<rparr>))"
proof -
  let ?body = "verifyContainerResources_body sysInfo update"
  obtain ws c' err where run: "Block ?body ([], config) = ((ws, c'), err)"
    by (metis surj_pair)
  from preserves_Block [OF period_unset_invariant _ run] assms
  have inv: "warnCPUCfsPeriod \<notin> set ws \<and> cpuPeriod c' = 0" by simp
  have "err \<noteq> Some CpuPeriodRange"
  proof
    assume "err = Some CpuPeriodRange"
    with run have "Block ?body ([], config) = ((ws, c'), Some CpuPeriodRange)" by simp
    from Block_error_cases [OF this] obtain before check after st1 where
      body: "?body = before @ check # after"
      and before: "Block before ([], config) = (st1, None)"
      and check: "check st1 = ((ws, c'), Some CpuPeriodRange)"
      by blast
    from body have mem: "check \<in> set ?body" by simp
    from failing_check_mutates_nothing [OF mem check] inv have "cpuPeriod (snd st1) = 0"
      by auto
    from period_unset_no_error [OF mem this check] show False by simp
  qed
  with inv run have first: "case verifyContainerResources sysInfo config update of
      (warnings, err, config') \<Rightarrow>
        err \<noteq> Some CpuPeriodRange \<and> warnCPUCfsPeriod \<notin> set warnings \<and> cpuPeriod config' = 0"
    by (simp add: verifyContainerResources_def)
  have unset: "config\<lparr>cpuPeriod := 0\<rparr> = config"
    using assms by (cases config) simp
  have second: "verifyContainerResources sysInfo config update
      = (filter (\<lambda>msg. msg \<noteq> warnCPUCfsPeriod) warnings, None, config''\<lparr>cpuPeriod := 0\<rparr>)"
    if "verifyContainerResources sysInfo (config\<lparr>cpuPeriod := period\<rparr>) update
      = (warnings, None, config'')" for period warnings config''
  proof -
    from that have "Block ?body ([], config\<lparr>cpuPeriod := period\<rparr>) = ((warnings, config''), None)"
      by (auto simp add: verifyContainerResources_def split: prod.splits)
    from simulated_Block [OF simulated_body this] unset
    show ?thesis by (simp add: unsetPeriod_def verifyContainerResources_def)
  qed
  from first second show ?thesis by blast
qed

text \<open>
  A request with a CPU period of 50000 and CPU shares, on a host without capabilities:
  it passes with two warnings; with the CPU period unset it passes with the warning on the
  shares alone.
\<close>

theorem cpuPeriod_unset_is_legal_witness:
  "cpuPeriod (unsetResources\<lparr>cpuShares := 512\<rparr>) = 0
   \<and> verifyContainerResources noCapabilities
       (unsetResources\<lparr>cpuShares := 512, cpuPeriod := 50000\<rparr>) False
     = ([warnCPUShares, warnCPUCfsPeriod], None, unsetResources)
   \<and> verifyContainerResources noCapabilities (unsetResources\<lparr>cpuShares := 512\<rparr>) False
     = ([warnCPUShares], None, unsetResources)"
proof -
  have z: "cpuPeriod (unsetResources\<lparr>cpuShares := 512\<rparr>) = 0"
    by (simp add: unsetResources_def)
  have v: "verifyContainerResources noCapabilities
       ((unsetResources\<lparr>cpuShares := 512\<rparr>)\<lparr>cpuPeriod := 50000\<rparr>) False
     = ([warnCPUShares, warnCPUCfsPeriod], None, unsetResources)"
    by (simp add: verify_defs stmt_defs linuxMinMemory_def unsetResources_def
        noCapabilities_def)
  have u: "unsetResources\<lparr>cpuPeriod := 0\<rparr> = unsetResources"
    by (simp add: unsetResources_def)
  from cpuPeriod_unset_is_legal [OF z, of noCapabilities False] v
  have "verifyContainerResources noCapabilities (unsetResources\<lparr>cpuShares := 512\<rparr>) False
     = (filter (\<lambda>msg. msg \<noteq> warnCPUCfsPeriod) [warnCPUShares, warnCPUCfsPeriod], None,
        unsetResources\<lparr>cpuPeriod := 0\<rparr>)"
    by blast
  with warnCPUCfsPeriod_unique(2) z v u show ?thesis by simp
qed

end
